theory Spec2Isabelle
  imports Main "HOL-Library.Word"
begin

section \<open>Python values, exceptions and the outside world\<close>

text \<open>
  The program is one FastAPI handler, \<open>upload_image\<close>, with two helpers,
  \<open>analyze_image\<close> and \<open>send_image_and_analysis_to_telegram\<close>. Everything it does is an
  effect: a file written and removed, one HTTP request, two Telegram calls, log lines.
  The model passes a \<open>world\<close> (the files on disk and the trace of effects so far) through
  every function, returns a raised exception as \<open>Inl\<close>, and reads what the external
  collaborators answer from an \<open>env\<close> record.
\<close>

type_synonym bytes = "8 word list"

text \<open>
  The values that JSON and the handler exchange. A float is written \<open>PFloat m e\<close> for
  the decimal \<open>m * 10 ^ e\<close> (the literal \<open>0.1\<close> is \<open>PFloat 1 (-1)\<close>); a dict keeps its
  items in order, with string keys, as a parsed JSON object has.
\<close>

datatype pyval =
    PNone
  | PBool bool
  | PInt int
  | PFloat int int
  | PStr string
  | PList "pyval list"
  | PDict "(string \<times> pyval) list"

text \<open>
  The exceptions the code can meet. All of them derive from Python's \<open>Exception\<close>, so an
  \<open>except Exception\<close> clause catches each one. \<open>NetworkError\<close> is a subclass of
  \<open>TelegramError\<close> in the Telegram library; \<open>TransportError\<close> stands for what the HTTP
  client raises (connection failure, timeout).
\<close>

datatype exn =
    HTTPException nat string
  | FileNotFoundError string
  | IsADirectoryError string
  | OSError string
  | TransportError string
  | JSONDecodeError string
  | KeyError string
  | IndexError
  | TypeError
  | TelegramError string
  | NetworkError string
  | RuntimeError string

fun is_telegram_error :: "exn \<Rightarrow> bool" where
  "is_telegram_error (TelegramError m) = True"
| "is_telegram_error (NetworkError m) = True"
| "is_telegram_error e = False"

datatype response = JSONResponse pyval nat

record http_request =
  url :: string
  json_body :: pyval
  headers :: "(string \<times> string) list"
  timeout :: nat

record http_response =
  status_code :: int
  resp_text :: string
  resp_json :: "exn + pyval"

record datetime =
  year :: nat
  month :: nat
  day :: nat
  hour :: nat
  minute :: nat
  second :: nat
  microsecond :: nat

text \<open>A log message is an f-string: literal pieces and interpolated objects.\<close>

datatype frag = Lit string | StrOf pyval | StrOfExn exn

text \<open>The trace records each effect as it happens: files, outgoing calls, log lines.\<close>

datatype event =
    LogInfo "frag list"
  | LogError "frag list"
  | FileWrite string bytes
  | FileRemove string
  | HttpPost http_request
  | SendPhoto string bytes string
  | SendMessage string pyval

record world =
  files :: "string \<rightharpoonup> bytes"
  trace :: "event list"

text \<open>
  What the process reads from its environment and what the external collaborators do:
  the configuration values, the MIME type that \<open>mimetypes.guess_type\<close> gives for a path
  (the first component of its result), the error (if any) that opening a path for writing
  raises, the inference endpoint's reaction to a request, the clock, and the messaging
  provider's reaction to each send (\<open>None\<close>: the call completes).
\<close>

record env =
  GROQ_API_URL :: string
  GROQ_API_KEY :: string
  TELEGRAM_CHAT_ID :: string
  guess_type :: "string \<Rightarrow> string option"
  open_wb_error :: "string \<Rightarrow> exn option"
  client_post :: "http_request \<Rightarrow> exn + http_response"
  now :: datetime
  send_photo :: "string \<Rightarrow> bytes \<Rightarrow> string \<Rightarrow> exn option"
  send_message :: "string \<Rightarrow> pyval \<Rightarrow> exn option"

record upload_file =
  filename :: string
  content_type :: "string option"
  content :: bytes

section \<open>Library functions the handler calls\<close>

subsection \<open>Truth value and subscripting of Python objects\<close>

fun py_truthy :: "pyval \<Rightarrow> bool" where
  "py_truthy PNone = False"
| "py_truthy (PBool b) = b"
| "py_truthy (PInt i) = (i \<noteq> 0)"
| "py_truthy (PFloat m e) = (m \<noteq> 0)"
| "py_truthy (PStr s) = (s \<noteq> [])"
| "py_truthy (PList xs) = (xs \<noteq> [])"
| "py_truthy (PDict kvs) = (kvs \<noteq> [])"

text \<open>\<open>obj[key]\<close> for a string key: only a dict has one; a list or a string raises TypeError.\<close>

fun getitem_str :: "pyval \<Rightarrow> string \<Rightarrow> exn + pyval" where
  "getitem_str (PDict kvs) k = (case map_of kvs k of None \<Rightarrow> Inl (KeyError k) | Some v \<Rightarrow> Inr v)"
| "getitem_str v k = Inl TypeError"

text \<open>
  \<open>obj[0]\<close>: the first element of a list, the first character of a string; a dict parsed
  from JSON has no integer key.
\<close>

fun getitem_0 :: "pyval \<Rightarrow> exn + pyval" where
  "getitem_0 (PList xs) = (case xs of [] \<Rightarrow> Inl IndexError | x # _ \<Rightarrow> Inr x)"
| "getitem_0 (PStr s) = (case s of [] \<Rightarrow> Inl IndexError | c # _ \<Rightarrow> Inr (PStr [c]))"
| "getitem_0 (PDict kvs) = Inl (KeyError ''0'')"
| "getitem_0 v = Inl TypeError"

subsection \<open>Paths\<close>

text \<open>\<open>os.path.basename\<close>: what follows the last slash.\<close>

definition basename :: "string \<Rightarrow> string" where
  "basename p = rev (takeWhile (\<lambda>c. c \<noteq> CHR ''/'') (rev p))"

text \<open>\<open>os.path.join\<close> of two components.\<close>

definition path_join :: "string \<Rightarrow> string \<Rightarrow> string" where
  "path_join a b =
     (if b \<noteq> [] \<and> hd b = CHR ''/'' then b
      else if a = [] \<or> last a = CHR ''/'' then a @ b
      else a @ ''/'' @ b)"

subsection \<open>Base64\<close>

definition b64_alphabet :: string where
  "b64_alphabet = ''ABCDEFGHIJKLMNOPQRSTUVWXYZabcdefghijklmnopqrstuvwxyz0123456789+/''"

definition b64_char :: "nat \<Rightarrow> char" where
  "b64_char i = b64_alphabet ! (i mod 64)"

text \<open>\<open>base64.b64encode\<close>: three bytes give four characters, the tail is padded with \<open>=\<close>.\<close>

fun b64encode :: "bytes \<Rightarrow> string" where
  "b64encode [] = []"
| "b64encode [a] =
     (let n = unat a * 65536
      in [b64_char (n div 262144), b64_char (n div 4096), CHR ''='', CHR ''=''])"
| "b64encode [a, b] =
     (let n = unat a * 65536 + unat b * 256
      in [b64_char (n div 262144), b64_char (n div 4096), b64_char (n div 64), CHR ''=''])"
| "b64encode (a # b # c # rest) =
     (let n = unat a * 65536 + unat b * 256 + unat c
      in [b64_char (n div 262144), b64_char (n div 4096), b64_char (n div 64), b64_char n]
         @ b64encode rest)"

subsection \<open>Timestamps\<close>

definition digit_char :: "nat \<Rightarrow> char" where
  "digit_char d = ''0123456789'' ! (d mod 10)"

fun show_nat :: "nat \<Rightarrow> string" where
  "show_nat n = (if n < 10 then [digit_char n] else show_nat (n div 10) @ [digit_char n])"

declare show_nat.simps [simp del]

definition zfill :: "nat \<Rightarrow> string \<Rightarrow> string" where
  "zfill k s = replicate (k - length s) CHR ''0'' @ s"

text \<open>\<open>strftime("%Y-%m-%d %H:%M:%S")\<close>: the microsecond field is not printed.\<close>

definition strftime :: "datetime \<Rightarrow> string" where
  "strftime t =
     zfill 4 (show_nat (year t)) @ ''-'' @ zfill 2 (show_nat (month t)) @ ''-''
     @ zfill 2 (show_nat (day t)) @ '' '' @ zfill 2 (show_nat (hour t)) @ '':''
     @ zfill 2 (show_nat (minute t)) @ '':'' @ zfill 2 (show_nat (second t))"

subsection \<open>The file system\<close>

text \<open>
  \<open>aiofiles.open(filepath, "wb")\<close> and the write: when the open raises, nothing is
  created; otherwise the file holds the bytes, whatever was there before.
\<close>

definition aio_write :: "env \<Rightarrow> string \<Rightarrow> bytes \<Rightarrow> world \<Rightarrow> (exn + unit) \<times> world" where
  "aio_write e filepath data w =
     (case open_wb_error e filepath of
        Some err \<Rightarrow> (Inl err, w)
      | None \<Rightarrow>
          (Inr (), w\<lparr>files := (files w)(filepath \<mapsto> data),
                     trace := trace w @ [FileWrite filepath data]\<rparr>))"

text \<open>\<open>os.remove\<close>: raises FileNotFoundError when there is no such file.\<close>

definition aio_remove :: "string \<Rightarrow> world \<Rightarrow> (exn + unit) \<times> world" where
  "aio_remove filepath w =
     (case files w filepath of
        None \<Rightarrow> (Inl (FileNotFoundError filepath), w)
      | Some data \<Rightarrow>
          (Inr (), w\<lparr>files := (files w)(filepath := None),
                     trace := trace w @ [FileRemove filepath]\<rparr>))"

definition log_info :: "frag list \<Rightarrow> world \<Rightarrow> world" where
  "log_info msg w = w\<lparr>trace := trace w @ [LogInfo msg]\<rparr>"

definition log_error :: "frag list \<Rightarrow> world \<Rightarrow> world" where
  "log_error msg w = w\<lparr>trace := trace w @ [LogError msg]\<rparr>"

section \<open>The program\<close>

subsection \<open>Constants\<close>

definition dq :: string where
  "dq = [CHR 0x22]"

definition nl :: string where
  "nl = [CHR 0x0A]"

fun join_lines :: "string list \<Rightarrow> string" where
  "join_lines [] = []"
| "join_lines [l] = l"
| "join_lines (l # ls) = l @ nl @ join_lines ls"

text \<open>The triple-quoted \<open>_prompt_\<close> literal, line by line (\<open>dq\<close> is the double quote).\<close>

definition prompt_lines :: "string list" where
  "prompt_lines =
    [[],
     ''{'',
     ''  '' @ dq @ ''input'' @ dq @ '': '' @ dq @ ''Image captured by camera.'' @ dq @ '','',
     ''  '' @ dq @ ''task'' @ dq @ '': '' @ dq @ ''Analyze the image looking for birds.'' @ dq @ '','',
     ''  '' @ dq @ ''output_format'' @ dq @ '': {'',
     ''    '' @ dq @ ''detected'' @ dq @ '': '' @ dq @ ''boolean'' @ dq @ '','',
     ''    '' @ dq @ ''description'' @ dq @ '': '' @ dq @ ''string (brief description if birds detected)'' @ dq,
     ''  },'',
     ''  '' @ dq @ ''instructions'' @ dq @ '': '' @ dq @ ''Do you see little birds standing on the trees?'' @ dq @ '','',
     ''  '' @ dq @ ''example_output_1'' @ dq @ '': {'',
     ''    '' @ dq @ ''detected'' @ dq @ '': '' @ dq @ ''yes'' @ dq @ '','',
     ''    '' @ dq @ ''description'' @ dq @ '': '' @ dq @ ''two little birds stands side by side on the tree.'' @ dq,
     ''  },'',
     ''  '' @ dq @ ''example_output_2'' @ dq @ '': {'',
     ''    '' @ dq @ ''detected'' @ dq @ '': '' @ dq @ ''yes'' @ dq @ '','',
     ''    '' @ dq @ ''description'' @ dq @ '': '' @ dq @ ''a flying bird is flying away from the tree.'' @ dq,
     ''  },'',
     ''  '' @ dq @ ''example_output_3'' @ dq @ '': {'',
     ''    '' @ dq @ ''detected'' @ dq @ '': '' @ dq @ ''no'' @ dq @ '','',
     ''    '' @ dq @ ''description'' @ dq @ '': '' @ dq @ ''no sign of birds on the trees.'' @ dq,
     ''  }'',
     ''}'',
     []]"
definition prompt :: string where
  "prompt = join_lines prompt_lines"

definition UPLOAD_FOLDER :: string where
  "UPLOAD_FOLDER = ''./uploads''"

definition ALLOWED_MIME_TYPES :: "string list" where
  "ALLOWED_MIME_TYPES = [''image/jpeg'']"

text \<open>\<open>t in ALLOWED_MIME_TYPES\<close>, for a type that may be \<open>None\<close>.\<close>

definition allowed_mime :: "string option \<Rightarrow> bool" where
  "allowed_mime t = (case t of None \<Rightarrow> False | Some m \<Rightarrow> m \<in> set ALLOWED_MIME_TYPES)"

subsection \<open>The Analyzer\<close>

text \<open>The request that \<open>analyze_image\<close> builds from the prompt and the file's bytes.\<close>

definition groq_messages :: "string \<Rightarrow> bytes \<Rightarrow> pyval" where
  "groq_messages prompt_text image_content =
     (let encoded_image = b64encode image_content
      in PList
          [PDict
            [(''role'', PStr ''user''),
             (''content'',
              PList
               [PDict [(''type'', PStr ''text''), (''text'', PStr prompt_text)],
                PDict
                 [(''type'', PStr ''image_url''),
                  (''image_url'',
                   PDict [(''url'', PStr (''data:image/jpeg;base64,'' @ encoded_image))])]])]])"

definition groq_request :: "env \<Rightarrow> string \<Rightarrow> bytes \<Rightarrow> http_request" where
  "groq_request e prompt_text image_content =
     \<lparr>url = GROQ_API_URL e,
      json_body =
        PDict
         [(''model'', PStr ''llama-3.2-11b-vision-preview''),
          (''messages'', groq_messages prompt_text image_content),
          (''temperature'', PFloat 1 (- 1)),
          (''max_tokens'', PInt 1000)],
      headers =
        [(''Authorization'', ''Bearer '' @ GROQ_API_KEY e),
         (''Content-Type'', ''application/json'')],
      timeout = 30\<rparr>"

text \<open>\<open>result["choices"][0]["message"]["content"]\<close>, each subscript able to raise.\<close>

definition first_choice_content :: "pyval \<Rightarrow> exn + pyval" where
  "first_choice_content result =
     (case getitem_str result ''choices'' of
        Inl err \<Rightarrow> Inl err
      | Inr choices \<Rightarrow>
          (case getitem_0 choices of
             Inl err \<Rightarrow> Inl err
           | Inr choice \<Rightarrow>
               (case getitem_str choice ''message'' of
                  Inl err \<Rightarrow> Inl err
                | Inr message \<Rightarrow> getitem_str message ''content'')))"

text \<open>The body of the \<open>try\<close> block of \<open>analyze_image\<close>.\<close>

definition analyze_image_try ::
    "env \<Rightarrow> string \<Rightarrow> string \<Rightarrow> world \<Rightarrow> (exn + pyval) \<times> world" where
  "analyze_image_try e image_path prompt_text w =
     (case files w image_path of
        None \<Rightarrow> (Inl (FileNotFoundError image_path), w)
      | Some image_content \<Rightarrow>
          (let request = groq_request e prompt_text image_content;
               w1 = w\<lparr>trace := trace w @ [HttpPost request]\<rparr>
           in case client_post e request of
                Inl err \<Rightarrow> (Inl err, w1)
              | Inr response \<Rightarrow>
                  if status_code response = 200 then
                    (case resp_json response of
                       Inl err \<Rightarrow> (Inl err, w1)
                     | Inr result \<Rightarrow>
                         (case first_choice_content result of
                            Inl err \<Rightarrow> (Inl err, w1)
                          | Inr answer \<Rightarrow>
                              (Inr answer,
                               log_info [StrOf answer]
                                 (log_info [Lit ''Analysis result:''] w1))))
                  else
                    (Inr PNone,
                     log_error
                       [Lit ''Error from Llama API: '', StrOf (PInt (status_code response)),
                        Lit '' - '', Lit (resp_text response)] w1)))"

text \<open>\<open>analyze_image\<close>: the \<open>try\<close> block under its \<open>except Exception\<close> clause.\<close>

definition analyze_image ::
    "env \<Rightarrow> string \<Rightarrow> string \<Rightarrow> world \<Rightarrow> (exn + pyval) \<times> world" where
  "analyze_image e image_path prompt_text w =
     (case analyze_image_try e image_path prompt_text w of
        (Inl err, w1) \<Rightarrow>
          (Inr PNone,
           log_error [Lit ''An unexpected error occurred in analyze_image: '', StrOfExn err] w1)
      | (Inr answer, w1) \<Rightarrow> (Inr answer, w1))"

subsection \<open>The Notifier\<close>

text \<open>
  The body of the \<open>try\<close> block of \<open>send_image_and_analysis_to_telegram\<close>. The trace
  records a send when the call is made; the environment says whether it completes.
\<close>

definition send_image_and_analysis_to_telegram_try ::
    "env \<Rightarrow> string \<Rightarrow> pyval \<Rightarrow> world \<Rightarrow> (exn + unit) \<times> world" where
  "send_image_and_analysis_to_telegram_try e image_path analysis_result w =
     (let timestamp = strftime (now e)
      in case files w image_path of
           None \<Rightarrow> (Inl (FileNotFoundError image_path), w)
         | Some image_file \<Rightarrow>
             (let w1 = w\<lparr>trace := trace w
                          @ [SendPhoto (TELEGRAM_CHAT_ID e) image_file timestamp]\<rparr>
              in case send_photo e (TELEGRAM_CHAT_ID e) image_file timestamp of
                   Some err \<Rightarrow> (Inl err, w1)
                 | None \<Rightarrow>
                     (let w2 = log_info
                                 [Lit (''Image sent to Telegram chat '' @ TELEGRAM_CHAT_ID e
                                       @ '' with timestamp '' @ timestamp)] w1;
                          w3 = w2\<lparr>trace := trace w2
                                   @ [SendMessage (TELEGRAM_CHAT_ID e) analysis_result]\<rparr>
                      in case send_message e (TELEGRAM_CHAT_ID e) analysis_result of
                           Some err \<Rightarrow> (Inl err, w3)
                         | None \<Rightarrow>
                             (Inr (),
                              log_info
                                [Lit (''Analysis result sent to Telegram chat ''
                                      @ TELEGRAM_CHAT_ID e)] w3))))"

text \<open>
  \<open>send_image_and_analysis_to_telegram\<close>: the clause \<open>except (TelegramError, NetworkError)\<close>
  logs and raises the error again; any other exception passes through untouched.
\<close>

definition send_image_and_analysis_to_telegram ::
    "env \<Rightarrow> string \<Rightarrow> pyval \<Rightarrow> world \<Rightarrow> (exn + unit) \<times> world" where
  "send_image_and_analysis_to_telegram e image_path analysis_result w =
     (case send_image_and_analysis_to_telegram_try e image_path analysis_result w of
        (Inl err, w1) \<Rightarrow>
          if is_telegram_error err
          then (Inl err, log_error [Lit ''Error sending to Telegram: '', StrOfExn err] w1)
          else (Inl err, w1)
      | (Inr u, w1) \<Rightarrow> (Inr u, w1))"

subsection \<open>The request handler\<close>

definition success_response :: response where
  "success_response =
     JSONResponse
       (PDict [(''message'', PStr ''Image received, analyzed, and forwarded to Telegram'')])
       200"

text \<open>The path under which \<open>upload_image\<close> stores an upload.\<close>

definition upload_path :: "string \<Rightarrow> string" where
  "upload_path name = path_join UPLOAD_FOLDER (basename name)"

text \<open>
  \<open>upload_image\<close> from the content check on the stored file to its end: everything the
  handler does once the file is written.
\<close>

definition upload_image_stored :: "env \<Rightarrow> string \<Rightarrow> world \<Rightarrow> (exn + response) \<times> world" where
  "upload_image_stored e filepath w =
     (if \<not> allowed_mime (guess_type e filepath) then
        (case aio_remove filepath w of
           (Inl err, w1) \<Rightarrow> (Inl err, w1)
         | (Inr u, w1) \<Rightarrow>
             (Inl (HTTPException 400 ''Invalid image content''),
              log_error [Lit ''Uploaded file content is not a valid JPEG image.''] w1))
      else
        (case analyze_image e filepath prompt w of
           (Inl err, w1) \<Rightarrow> (Inl err, w1)
         | (Inr analysis_result, w1) \<Rightarrow>
             if \<not> py_truthy analysis_result then
               (case aio_remove filepath w1 of
                  (Inl err, w2) \<Rightarrow> (Inl err, w2)
                | (Inr u, w2) \<Rightarrow>
                    (Inl (HTTPException 500 ''Failed to analyze the image''),
                     log_error [Lit ''Failed to analyze the image.''] w2))
             else
               (case send_image_and_analysis_to_telegram e filepath analysis_result w1 of
                  (Inl err, w2) \<Rightarrow>
                    (case aio_remove filepath
                            (log_error
                               [Lit ''Failed to send image to Telegram: '', StrOfExn err] w2) of
                       (Inl err', w3) \<Rightarrow> (Inl err', w3)
                     | (Inr u, w3) \<Rightarrow>
                         (Inl (HTTPException 500 ''Failed to send image to Telegram''), w3))
                | (Inr u, w2) \<Rightarrow>
                    (case aio_remove filepath w2 of
                       (Inl err, w3) \<Rightarrow> (Inl err, w3)
                     | (Inr u', w3) \<Rightarrow>
                         (Inr success_response,
                          log_info
                            [Lit (''Image file '' @ filepath @ '' removed after processing.'')]
                            w3)))))"

text \<open>\<open>upload_image\<close>: the declared type, the file name, the write, then the rest.\<close>

definition upload_image :: "env \<Rightarrow> upload_file \<Rightarrow> world \<Rightarrow> (exn + response) \<times> world" where
  "upload_image e img w =
     (if \<not> allowed_mime (content_type img) then
        (Inl (HTTPException 400 ''Invalid file format, only JPEG images are accepted''),
         log_error [Lit ''Invalid file format. Only JPEG images are accepted.''] w)
      else
        (let filepath = upload_path (filename img)
         in case aio_write e filepath (content img) w of
              (Inl err, w1) \<Rightarrow> (Inl err, w1)
            | (Inr u, w1) \<Rightarrow>
                upload_image_stored e filepath
                  (log_info [Lit (''Image saved at '' @ filepath)] w1)))"

text \<open>
  The status the framework answers with: an \<open>HTTPException\<close> carries its own status, any
  other exception that leaves the handler becomes a 500.
\<close>

fun http_status :: "exn + response \<Rightarrow> nat" where
  "http_status (Inl (HTTPException code detail)) = code"
| "http_status (Inl err) = 500"
| "http_status (Inr (JSONResponse body code)) = code"

section \<open>A concrete environment\<close>

subsection \<open>The standard library's \<open>mimetypes.guess_type\<close>\<close>

text \<open>
  \<open>guess_type\<close> is given the path only and never opens the file: it looks the path's
  extension up in a table. The model follows the library for a path without a URL scheme
  (the handler's paths start with \<open>./uploads/\<close>): split off the extension, expand a
  compound suffix, drop an encoding suffix, look the lower-cased extension up. The table
  is an excerpt of the library's default one, with all its entries for \<open>image/jpeg\<close>.
\<close>

definition ascii_lower :: "char \<Rightarrow> char" where
  "ascii_lower c =
     (case map_of (zip ''ABCDEFGHIJKLMNOPQRSTUVWXYZ'' ''abcdefghijklmnopqrstuvwxyz'') c of
        None \<Rightarrow> c
      | Some l \<Rightarrow> l)"

definition lower :: "string \<Rightarrow> string" where
  "lower s = map ascii_lower s"

text \<open>
  \<open>posixpath.splitext\<close>: the extension starts at the last dot of the last component,
  unless only dots come before it there.
\<close>

definition splitext :: "string \<Rightarrow> string \<times> string" where
  "splitext p =
     (let name = basename p
      in if CHR ''.'' \<in> set (dropWhile (\<lambda>c. c = CHR ''.'') name)
         then (let ext = CHR ''.'' # rev (takeWhile (\<lambda>c. c \<noteq> CHR ''.'') (rev name))
               in (take (length p - length ext) p, ext))
         else (p, []))"

definition suffix_map :: "(string \<times> string) list" where
  "suffix_map =
     [(''.svgz'', ''.svg.gz''), (''.tgz'', ''.tar.gz''), (''.taz'', ''.tar.gz''),
      (''.tz'', ''.tar.gz''), (''.tbz2'', ''.tar.bz2''), (''.txz'', ''.tar.xz'')]"

definition encodings_map :: "(string \<times> string) list" where
  "encodings_map =
     [(''.gz'', ''gzip''), (''.Z'', ''compress''), (''.bz2'', ''bzip2''), (''.xz'', ''xz''),
      (''.br'', ''br'')]"

definition types_map :: "(string \<times> string) list" where
  "types_map =
     [(''.jpg'', ''image/jpeg''), (''.jpe'', ''image/jpeg''), (''.jpeg'', ''image/jpeg''),
      (''.png'', ''image/png''), (''.gif'', ''image/gif''), (''.bmp'', ''image/bmp''),
      (''.txt'', ''text/plain''), (''.html'', ''text/html''), (''.json'', ''application/json''),
      (''.pdf'', ''application/pdf''), (''.tar'', ''application/x-tar''),
      (''.svg'', ''image/svg+xml'')]"

text \<open>
  No expansion in \<open>suffix_map\<close> ends in one of its own keys, so the library's loop over it
  runs at most once.
\<close>

definition mimetypes_guess_type :: "string \<Rightarrow> string option" where
  "mimetypes_guess_type path =
     (let (base, ext) = splitext path;
          (base1, ext1) =
            (case map_of suffix_map (lower ext) of
               None \<Rightarrow> (base, ext)
             | Some s \<Rightarrow> splitext (base @ s));
          (base2, ext2) =
            (if ext1 \<in> set (map fst encodings_map) then splitext base1 else (base1, ext1))
      in map_of types_map (lower ext2))"

subsection \<open>Collaborators that answer\<close>

definition demo_answer :: pyval where
  "demo_answer = PStr (''{'' @ dq @ ''detected'' @ dq @ '':'' @ dq @ ''no'' @ dq @ ''}'')"

definition demo_response :: http_response where
  "demo_response =
     \<lparr>status_code = 200,
      resp_text = ''(body)'',
      resp_json =
        Inr (PDict
              [(''choices'',
                PList [PDict [(''message'', PDict [(''content'', demo_answer)])]])])\<rparr>"

text \<open>
  An environment in which everything works: the library's type table, a directory that
  accepts any file name (an empty name, \<open>.\<close> and \<open>..\<close> name directories, which cannot
  be opened for writing), an inference endpoint that answers, a messaging provider that
  delivers.
\<close>

definition demo_env :: env where
  "demo_env =
     \<lparr>GROQ_API_URL = ''https://api.groq.com/openai/v1/chat/completions'',
      GROQ_API_KEY = ''secret'',
      TELEGRAM_CHAT_ID = ''-1001'',
      guess_type = mimetypes_guess_type,
      open_wb_error =
        (\<lambda>p. if basename p \<in> set [[], ''.'', ''..''] then Some (IsADirectoryError p) else None),
      client_post = (\<lambda>request. Inr demo_response),
      now = \<lparr>year = 2024, month = 5, day = 17, hour = 8, minute = 3, second = 9,
             microsecond = 123456\<rparr>,
      send_photo = (\<lambda>chat photo caption. None),
      send_message = (\<lambda>chat txt. None)\<rparr>"

definition empty_world :: world where
  "empty_world = \<lparr>files = Map.empty, trace = []\<rparr>"

text \<open>The bytes \<open>FF D8 FF E0\<close> open a JPEG file; \<open>hello\<close> is plain text.\<close>

definition photo_jpg :: upload_file where
  "photo_jpg =
     \<lparr>filename = ''photo.jpg'', content_type = Some ''image/jpeg'',
      content = [0xFF, 0xD8, 0xFF, 0xE0]\<rparr>"

definition fake_jpg :: upload_file where
  "fake_jpg =
     \<lparr>filename = ''fake.jpg'', content_type = Some ''image/jpeg'',
      content = [0x68, 0x65, 0x6C, 0x6C, 0x6F]\<rparr>"

text \<open>A file name that tries to leave the upload folder.\<close>

definition traversal_jpg :: upload_file where
  "traversal_jpg =
     \<lparr>filename = ''../../tmp/evil.jpg'', content_type = Some ''image/jpeg'',
      content = [0xFF, 0xD8, 0xFF, 0xDB]\<rparr>"

definition doc_pdf :: upload_file where
  "doc_pdf =
     \<lparr>filename = ''doc.pdf'', content_type = Some ''application/pdf'',
      content = [0x25, 0x50, 0x44, 0x46]\<rparr>"

subsection \<open>Collaborators that fail\<close>

text \<open>The inference endpoint answers 503 with a body that is not JSON.\<close>

definition overloaded_response :: http_response where
  "overloaded_response =
     \<lparr>status_code = 503, resp_text = ''Service Unavailable'',
      resp_json = Inl (JSONDecodeError ''Expecting value'')\<rparr>"

definition overloaded_env :: env where
  "overloaded_env = demo_env\<lparr>client_post := (\<lambda>request. Inr overloaded_response)\<rparr>"

text \<open>The inference endpoint answers 200 with an empty message content.\<close>

definition silent_response :: http_response where
  "silent_response =
     \<lparr>status_code = 200,
      resp_text = ''(body)'',
      resp_json =
        Inr (PDict
              [(''choices'',
                PList [PDict [(''message'', PDict [(''content'', PStr [])])]])])\<rparr>"

definition silent_env :: env where
  "silent_env = demo_env\<lparr>client_post := (\<lambda>request. Inr silent_response)\<rparr>"

text \<open>The messaging provider delivers the photo and times out on the text message.\<close>

definition offline_env :: env where
  "offline_env = demo_env\<lparr>send_message := (\<lambda>chat txt. Some (NetworkError ''Timed out''))\<rparr>"

text \<open>A world in which \<open>photo.jpg\<close> is stored.\<close>

definition photo_stored :: world where
  "photo_stored =
     \<lparr>files = [''./uploads/photo.jpg'' \<mapsto> [0xFF, 0xD8, 0xFF, 0xE0]], trace = []\<rparr>"

section \<open>Counting effects\<close>

text \<open>How often a trace removes a given path.\<close>

definition removals :: "string \<Rightarrow> event list \<Rightarrow> nat" where
  "removals p tr = count_list tr (FileRemove p)"

text \<open>The writes and removals of a trace, in order.\<close>

fun is_file_event :: "event \<Rightarrow> bool" where
  "is_file_event (FileWrite p data) = True"
| "is_file_event (FileRemove p) = True"
| "is_file_event ev = False"

definition file_events :: "event list \<Rightarrow> event list" where
  "file_events tr = filter is_file_event tr"

text \<open>The requests a trace sends to the inference endpoint, in order.\<close>

fun http_posts :: "event list \<Rightarrow> http_request list" where
  "http_posts [] = []"
| "http_posts (HttpPost request # tr) = request # http_posts tr"
| "http_posts (ev # tr) = http_posts tr"

section \<open>What the helpers leave untouched\<close>

lemmas handler_defs = aio_write_def aio_remove_def log_info_def log_error_def

lemma removals_append: "removals p (xs @ ys) = removals p xs + removals p ys"
  by (induction xs) (simp_all add: removals_def)

lemma analyze_image_try_files:
  "files (snd (analyze_image_try e p t w)) = files w"
  by (simp add: analyze_image_try_def log_info_def log_error_def Let_def
           split: option.splits sum.splits)

lemma analyze_image_files: "files (snd (analyze_image e p t w)) = files w"
  using analyze_image_try_files [of e p t w]
  by (auto simp: analyze_image_def log_error_def split: prod.splits sum.splits)

lemma analyze_image_try_removals:
  "removals q (trace (snd (analyze_image_try e p t w))) = removals q (trace w)"
  by (simp add: analyze_image_try_def log_info_def log_error_def Let_def removals_def
           split: option.splits sum.splits)

lemma analyze_image_removals:
  "removals q (trace (snd (analyze_image e p t w))) = removals q (trace w)"
  using analyze_image_try_removals [of q e p t w]
  by (auto simp: analyze_image_def log_error_def removals_def split: prod.splits sum.splits)

lemma analyze_image_returns: "\<exists>v. fst (analyze_image e p t w) = Inr v"
  by (simp add: analyze_image_def split: prod.splits sum.splits)

lemma notifier_try_files:
  "files (snd (send_image_and_analysis_to_telegram_try e p a w)) = files w"
  by (simp add: send_image_and_analysis_to_telegram_try_def log_info_def Let_def
           split: option.splits)

lemma notifier_files:
  "files (snd (send_image_and_analysis_to_telegram e p a w)) = files w"
  using notifier_try_files [of e p a w]
  by (auto simp: send_image_and_analysis_to_telegram_def log_error_def
           split: prod.splits sum.splits)

lemma notifier_try_removals:
  "removals q (trace (snd (send_image_and_analysis_to_telegram_try e p a w)))
     = removals q (trace w)"
  by (simp add: send_image_and_analysis_to_telegram_try_def log_info_def Let_def removals_def
           split: option.splits)

lemma notifier_removals:
  "removals q (trace (snd (send_image_and_analysis_to_telegram e p a w)))
     = removals q (trace w)"
  using notifier_try_removals [of q e p a w]
  by (auto simp: send_image_and_analysis_to_telegram_def log_error_def removals_def
           split: prod.splits sum.splits)

section \<open>The transient file\<close>

text \<open>The stored part of the handler, from a world that holds the file.\<close>

lemma stored_removes_once:
  assumes "files w p = Some data"
  shows "removals p (trace (snd (upload_image_stored e p w))) = removals p (trace w) + 1
         \<and> files (snd (upload_image_stored e p w)) p = None
         \<and> fst (upload_image_stored e p w)
             \<in> {Inl (HTTPException 400 ''Invalid image content''),
                Inl (HTTPException 500 ''Failed to analyze the image''),
                Inl (HTTPException 500 ''Failed to send image to Telegram''),
                Inr success_response}"
proof (cases "allowed_mime (guess_type e p)")
  case False
  then show ?thesis using assms
    by (simp add: upload_image_stored_def handler_defs removals_def)
next
  case True
  obtain r w1 where a: "analyze_image e p prompt w = (r, w1)" by (cases "analyze_image e p prompt w")
  from analyze_image_returns [of e p prompt w] a obtain v where r: "r = Inr v" by auto
  from analyze_image_files [of e p prompt w] a have f1: "files w1 = files w" by simp
  from analyze_image_removals [of p e p prompt w] a
  have c1: "removals p (trace w1) = removals p (trace w)" by simp
  show ?thesis
  proof (cases "py_truthy v")
    case False
    then show ?thesis using True a r f1 c1 assms
      by (simp add: upload_image_stored_def handler_defs removals_def)
  next
    case tr: True
    obtain r2 w2 where s: "send_image_and_analysis_to_telegram e p v w1 = (r2, w2)"
      by (cases "send_image_and_analysis_to_telegram e p v w1")
    from notifier_files [of e p v w1] s have f2: "files w2 = files w1" by simp
    from notifier_removals [of p e p v w1] s
    have c2: "removals p (trace w2) = removals p (trace w1)" by simp
    show ?thesis using True a r f1 c1 tr s f2 c2 assms
      by (cases r2) (simp_all add: upload_image_stored_def handler_defs removals_def)
  qed
qed

lemma upload_image_accepted:
  assumes "allowed_mime (content_type img)"
    and "open_wb_error e (upload_path (filename img)) = None"
  shows "upload_image e img w
           = upload_image_stored e (upload_path (filename img))
               (log_info [Lit (''Image saved at '' @ upload_path (filename img))]
                  (w\<lparr>files := (files w)(upload_path (filename img) \<mapsto> content img),
                     trace := trace w @ [FileWrite (upload_path (filename img)) (content img)]\<rparr>))"
  using assms by (simp add: upload_image_def aio_write_def Let_def)

text \<open>
  Claim C1. Whenever the declared type passes and the upload is written to disk, the run
  of \<open>upload_image\<close> removes the file exactly once, the file is gone when the handler
  ends, and the handler ends in one of four ways: the content-mismatch abort, the
  analysis-failure abort, the delivery-failure abort, or the success response.
\<close>

theorem transient_file_deleted_exactly_once:
  assumes "allowed_mime (content_type img)"
    and "open_wb_error e (upload_path (filename img)) = None"
  shows "removals (upload_path (filename img)) (trace (snd (upload_image e img w)))
           = removals (upload_path (filename img)) (trace w) + 1
         \<and> files (snd (upload_image e img w)) (upload_path (filename img)) = None
         \<and> fst (upload_image e img w)
             \<in> {Inl (HTTPException 400 ''Invalid image content''),
                Inl (HTTPException 500 ''Failed to analyze the image''),
                Inl (HTTPException 500 ''Failed to send image to Telegram''),
                Inr success_response}"
proof -
  let ?p = "upload_path (filename img)"
  let ?w1 = "log_info [Lit (''Image saved at '' @ ?p)]
               (w\<lparr>files := (files w)(?p \<mapsto> content img),
                  trace := trace w @ [FileWrite ?p (content img)]\<rparr>)"
  have f: "files ?w1 ?p = Some (content img)" by (simp add: log_info_def)
  have c: "removals ?p (trace ?w1) = removals ?p (trace w)"
    by (simp add: log_info_def removals_def)
  show ?thesis
    using stored_removes_once [OF f, of e] c unfolding upload_image_accepted [OF assms] by simp
qed

text \<open>The upload \<open>photo.jpg\<close> in the environment where everything works.\<close>

lemma photo_jpg_path: "upload_path (filename photo_jpg) = ''./uploads/photo.jpg''"
  by (simp add: photo_jpg_def upload_path_def path_join_def basename_def UPLOAD_FOLDER_def)

lemma photo_jpg_declared: "allowed_mime (content_type photo_jpg)"
  by (simp add: photo_jpg_def allowed_mime_def ALLOWED_MIME_TYPES_def)

lemma demo_env_writes: "open_wb_error demo_env ''./uploads/photo.jpg'' = None"
  by (simp add: demo_env_def basename_def)

theorem transient_file_deleted_exactly_once_witness:
  "allowed_mime (content_type photo_jpg)
   \<and> open_wb_error demo_env (upload_path (filename photo_jpg)) = None
   \<and> removals ''./uploads/photo.jpg'' (trace (snd (upload_image demo_env photo_jpg empty_world))) = 1
   \<and> files (snd (upload_image demo_env photo_jpg empty_world)) ''./uploads/photo.jpg'' = None"
proof -
  have h1: "allowed_mime (content_type photo_jpg)" by (rule photo_jpg_declared)
  have h2: "open_wb_error demo_env (upload_path (filename photo_jpg)) = None"
    by (simp add: photo_jpg_path demo_env_writes)
  show ?thesis
    using transient_file_deleted_exactly_once [OF h1 h2, of empty_world] h1 h2
    by (simp add: photo_jpg_path empty_world_def removals_def)
qed

section \<open>The declared content type\<close>

text \<open>
  Claim C4. An upload whose declared content type is not exactly \<open>image/jpeg\<close> (or is
  missing) is answered with status 400; the only effect is the error log line, so no file
  is written and the files on disk are what they were.
\<close>

theorem declared_type_rejected_before_any_write:
  assumes "content_type img \<noteq> Some ''image/jpeg''"
  shows "upload_image e img w
           = (Inl (HTTPException 400 ''Invalid file format, only JPEG images are accepted''),
              w\<lparr>trace := trace w
                   @ [LogError [Lit ''Invalid file format. Only JPEG images are accepted.'']]\<rparr>)
         \<and> http_status (fst (upload_image e img w)) = 400
         \<and> files (snd (upload_image e img w)) = files w"
proof -
  have "\<not> allowed_mime (content_type img)"
    using assms by (auto simp: allowed_mime_def ALLOWED_MIME_TYPES_def split: option.splits)
  then show ?thesis by (simp add: upload_image_def log_error_def)
qed

text \<open>The upload \<open>doc.pdf\<close>, declared \<open>application/pdf\<close>.\<close>

theorem declared_type_rejected_before_any_write_witness:
  "content_type doc_pdf \<noteq> Some ''image/jpeg''
   \<and> http_status (fst (upload_image demo_env doc_pdf empty_world)) = 400
   \<and> files (snd (upload_image demo_env doc_pdf empty_world)) = Map.empty
   \<and> trace (snd (upload_image demo_env doc_pdf empty_world))
       = [LogError [Lit ''Invalid file format. Only JPEG images are accepted.'']]"
proof -
  have h: "content_type doc_pdf \<noteq> Some ''image/jpeg''" by (simp add: doc_pdf_def)
  show ?thesis
    using declared_type_rejected_before_any_write [OF h, of demo_env empty_world] h
    by (simp add: empty_world_def)
qed

section \<open>The content check on the stored file\<close>

lemma fake_jpg_path: "upload_path (filename fake_jpg) = ''./uploads/fake.jpg''"
  by (simp add: fake_jpg_def upload_path_def path_join_def basename_def UPLOAD_FOLDER_def)

lemma fake_jpg_guess: "guess_type demo_env ''./uploads/fake.jpg'' = Some ''image/jpeg''"
  by (simp add: demo_env_def mimetypes_guess_type_def splitext_def basename_def suffix_map_def
        encodings_map_def types_map_def lower_def ascii_lower_def)

text \<open>
  Claim C2. The check after the write asks \<open>mimetypes.guess_type\<close> about the path, and
  the answer depends on the file name alone. The upload \<open>fake.jpg\<close>, declared
  \<open>image/jpeg\<close> and holding the text \<open>hello\<close>, passes it: the handler goes on to the
  analysis and the delivery and answers 200, where the claim says 400.
\<close>

theorem fake_jpg_is_accepted:
  "guess_type demo_env (upload_path (filename fake_jpg)) = Some ''image/jpeg''
   \<and> fst (upload_image demo_env fake_jpg empty_world) = Inr success_response
   \<and> http_status (fst (upload_image demo_env fake_jpg empty_world)) = 200"
proof -
  have d: "allowed_mime (content_type fake_jpg)"
    by (simp add: fake_jpg_def allowed_mime_def ALLOWED_MIME_TYPES_def)
  have o: "open_wb_error demo_env (upload_path (filename fake_jpg)) = None"
    by (simp add: fake_jpg_path demo_env_def basename_def)
  have g: "allowed_mime (guess_type demo_env ''./uploads/fake.jpg'')"
    by (simp add: fake_jpg_guess allowed_mime_def ALLOWED_MIME_TYPES_def)
  have r: "fst (upload_image demo_env fake_jpg empty_world) = Inr success_response"
    unfolding upload_image_accepted [OF d o] fake_jpg_path
    using g
    by (simp add: upload_image_stored_def analyze_image_def analyze_image_try_def
          send_image_and_analysis_to_telegram_def send_image_and_analysis_to_telegram_try_def
          handler_defs Let_def first_choice_content_def demo_env_def demo_response_def
          demo_answer_def empty_world_def dq_def)
  show ?thesis using r by (simp add: fake_jpg_path fake_jpg_guess success_response_def)
qed

section \<open>Removing a file that is gone\<close>

text \<open>
  When the file is no longer there as the stored part of the handler starts, every path
  ends in the \<open>FileNotFoundError\<close> of the removal: the Analyzer cannot read the file
  either, which sends the handler to its analysis-failure removal.
\<close>

lemma stored_file_gone:
  assumes "files w p = None"
  shows "upload_image_stored e p w = (Inl (FileNotFoundError p), snd (upload_image_stored e p w))
         \<and> removals p (trace (snd (upload_image_stored e p w))) = removals p (trace w)"
proof (cases "allowed_mime (guess_type e p)")
  case False
  then show ?thesis using assms by (simp add: upload_image_stored_def handler_defs)
next
  case True
  have "analyze_image_try e p prompt w = (Inl (FileNotFoundError p), w)"
    using assms by (simp add: analyze_image_try_def)
  then show ?thesis using True assms
    by (simp add: upload_image_stored_def analyze_image_def handler_defs removals_def)
qed

text \<open>
  Claim C3, as stated, fails. Two requests upload \<open>photo.jpg\<close>. The first has written
  its file; the second then runs from start to end and removes the file; the first goes
  on, and its removal raises \<open>FileNotFoundError\<close>, which leaves the handler.
\<close>

theorem cleanup_of_removed_file_counterexample:
  "files (snd (upload_image demo_env photo_jpg
                (snd (aio_write demo_env ''./uploads/photo.jpg'' (content photo_jpg) empty_world))))
       ''./uploads/photo.jpg'' = None
   \<and> fst (upload_image_stored demo_env ''./uploads/photo.jpg''
         (snd (upload_image demo_env photo_jpg
                (snd (aio_write demo_env ''./uploads/photo.jpg'' (content photo_jpg) empty_world)))))
     = Inl (FileNotFoundError ''./uploads/photo.jpg'')"
proof -
  let ?w = "snd (aio_write demo_env ''./uploads/photo.jpg'' (content photo_jpg) empty_world)"
  have o: "open_wb_error demo_env (upload_path (filename photo_jpg)) = None"
    by (simp add: photo_jpg_path demo_env_writes)
  have gone: "files (snd (upload_image demo_env photo_jpg ?w)) ''./uploads/photo.jpg'' = None"
    unfolding upload_image_accepted [OF photo_jpg_declared o] photo_jpg_path
    by (rule stored_removes_once [THEN conjunct2, THEN conjunct1]) (simp add: log_info_def)
  from stored_file_gone [OF gone, of demo_env]
  have "fst (upload_image_stored demo_env ''./uploads/photo.jpg''
              (snd (upload_image demo_env photo_jpg ?w)))
          = Inl (FileNotFoundError ''./uploads/photo.jpg'')"
    by (metis fst_conv)
  with gone show ?thesis by simp
qed

text \<open>
  Claim C3, amended. One run of \<open>upload_image\<close> removes its file at most once, so the
  handler never deletes twice by itself; the removal is not guarded: when the file is
  already gone, the stored part of the handler ends with \<open>FileNotFoundError\<close>.
\<close>

theorem handler_removes_at_most_once_unguarded:
  "removals (upload_path (filename img)) (trace (snd (upload_image e img w)))
     \<le> removals (upload_path (filename img)) (trace w) + 1
   \<and> (files w p = None \<longrightarrow> fst (upload_image_stored e p w) = Inl (FileNotFoundError p))"
proof -
  let ?p = "upload_path (filename img)"
  have a: "removals ?p (trace (snd (upload_image e img w))) \<le> removals ?p (trace w) + 1"
  proof (cases "allowed_mime (content_type img) \<and> open_wb_error e ?p = None")
    case True
    then have d: "allowed_mime (content_type img)" and o: "open_wb_error e ?p = None" by simp_all
    have f: "files (log_info [Lit (''Image saved at '' @ ?p)]
               (w\<lparr>files := (files w)(?p \<mapsto> content img),
                  trace := trace w @ [FileWrite ?p (content img)]\<rparr>)) ?p = Some (content img)"
      by (simp add: log_info_def)
    show ?thesis
      using stored_removes_once [OF f, of e] unfolding upload_image_accepted [OF d o]
      by (simp add: log_info_def removals_def)
  next
    case False
    then show ?thesis
      by (auto simp: upload_image_def aio_write_def log_error_def removals_def Let_def
               split: option.splits)
  qed
  have b: "files w p = None \<longrightarrow> fst (upload_image_stored e p w) = Inl (FileNotFoundError p)"
    using stored_file_gone [of w p e] by (metis fst_conv)
  show ?thesis using a b by simp
qed

theorem handler_removes_at_most_once_unguarded_witness:
  "files empty_world ''./uploads/photo.jpg'' = None
   \<and> fst (upload_image_stored demo_env ''./uploads/photo.jpg'' empty_world)
       = Inl (FileNotFoundError ''./uploads/photo.jpg'')
   \<and> removals ''./uploads/photo.jpg'' (trace (snd (upload_image demo_env photo_jpg empty_world))) \<le> 1"
  using handler_removes_at_most_once_unguarded
          [of photo_jpg demo_env empty_world "''./uploads/photo.jpg''"]
  by (simp add: photo_jpg_path empty_world_def removals_def)

section \<open>The Analyzer's outcomes\<close>

lemma http_posts_append: "http_posts (xs @ ys) = http_posts xs @ http_posts ys"
  by (induction xs rule: http_posts.induct) simp_all

text \<open>An answer on status 200, and the three ways the inference call fails.\<close>

lemma analyze_image_answers:
  assumes "files w p = Some data"
    and "client_post e (groq_request e t data) = Inr response"
    and "status_code response = 200"
    and "resp_json response = Inr result"
    and "first_choice_content result = Inr answer"
  shows "analyze_image e p t w
           = (Inr answer,
              w\<lparr>trace := trace w
                   @ [HttpPost (groq_request e t data), LogInfo [Lit ''Analysis result:''],
                      LogInfo [StrOf answer]]\<rparr>)"
  using assms by (simp add: analyze_image_def analyze_image_try_def log_info_def Let_def)

lemma analyze_image_fails:
  assumes "files w p = Some data"
    and "client_post e (groq_request e t data) = Inl err
         \<or> (client_post e (groq_request e t data) = Inr response
            \<and> (status_code response \<noteq> 200
               \<or> resp_json response = Inl err
               \<or> (resp_json response = Inr result \<and> first_choice_content result = Inl err)))"
  shows "\<exists>msg. analyze_image e p t w
           = (Inr PNone, w\<lparr>trace := trace w @ [HttpPost (groq_request e t data), LogError msg]\<rparr>)"
  using assms
  by (auto simp: analyze_image_def analyze_image_try_def log_error_def Let_def)

text \<open>What the handler does with a falsy analysis result.\<close>

lemma stored_analysis_absent:
  assumes "files w p = Some data"
    and "allowed_mime (guess_type e p)"
    and "analyze_image e p prompt w = (Inr v, w1)"
    and "\<not> py_truthy v"
  shows "upload_image_stored e p w
           = (Inl (HTTPException 500 ''Failed to analyze the image''),
              w1\<lparr>files := (files w)(p := None),
                 trace := trace w1 @ [FileRemove p, LogError [Lit ''Failed to analyze the image.'']]\<rparr>)"
proof -
  from analyze_image_files [of e p prompt w] assms(3) have "files w1 = files w" by simp
  then show ?thesis using assms
    by (simp add: upload_image_stored_def handler_defs)
qed

text \<open>
  Claim C5. When the inference call raises (a network failure, a timeout), answers with a
  status other than 200, or answers 200 with a body that does not parse or lacks
  \<open>choices[0].message.content\<close>, \<open>analyze_image\<close> returns \<open>None\<close> after one error log line
  and raises nothing; \<open>upload_image\<close> then removes the file it wrote and raises the
  500 for a failed analysis.
\<close>

theorem analysis_failure_is_absence_then_500:
  assumes "client_post e (groq_request e prompt_text data) = Inl err
           \<or> (client_post e (groq_request e prompt_text data) = Inr response
              \<and> (status_code response \<noteq> 200
                 \<or> resp_json response = Inl err
                 \<or> (resp_json response = Inr result
                    \<and> first_choice_content result = Inl err)))"
  shows "(files w image_path = Some data \<longrightarrow>
            (\<exists>msg. analyze_image e image_path prompt_text w
               = (Inr PNone,
                  w\<lparr>trace := trace w
                       @ [HttpPost (groq_request e prompt_text data), LogError msg]\<rparr>)))
         \<and> (prompt_text = prompt \<and> content img = data \<and> allowed_mime (content_type img)
             \<and> open_wb_error e (upload_path (filename img)) = None
             \<and> allowed_mime (guess_type e (upload_path (filename img))) \<longrightarrow>
               fst (upload_image e img w) = Inl (HTTPException 500 ''Failed to analyze the image'')
               \<and> http_status (fst (upload_image e img w)) = 500
               \<and> files (snd (upload_image e img w)) (upload_path (filename img)) = None
               \<and> file_events (trace (snd (upload_image e img w)))
                   = file_events (trace w)
                     @ [FileWrite (upload_path (filename img)) (content img),
                        FileRemove (upload_path (filename img))])"
proof -
  let ?p = "upload_path (filename img)"
  let ?w1 = "log_info [Lit (''Image saved at '' @ ?p)]
               (w\<lparr>files := (files w)(?p \<mapsto> content img),
                  trace := trace w @ [FileWrite ?p (content img)]\<rparr>)"
  have analyzer: "files w image_path = Some data \<longrightarrow>
            (\<exists>msg. analyze_image e image_path prompt_text w
               = (Inr PNone,
                  w\<lparr>trace := trace w
                       @ [HttpPost (groq_request e prompt_text data), LogError msg]\<rparr>))"
    using assms analyze_image_fails [of w image_path data e prompt_text err response result]
    by blast
  have handler: "fst (upload_image e img w) = Inl (HTTPException 500 ''Failed to analyze the image'')
        \<and> http_status (fst (upload_image e img w)) = 500
        \<and> files (snd (upload_image e img w)) ?p = None
        \<and> file_events (trace (snd (upload_image e img w)))
            = file_events (trace w) @ [FileWrite ?p (content img), FileRemove ?p]"
    if h: "prompt_text = prompt \<and> content img = data \<and> allowed_mime (content_type img)
             \<and> open_wb_error e ?p = None \<and> allowed_mime (guess_type e ?p)"
  proof -
    have f: "files ?w1 ?p = Some data" using h by (simp add: log_info_def)
    from analyze_image_fails [OF f, of e prompt_text err response result] assms
    obtain msg where a: "analyze_image e ?p prompt ?w1
        = (Inr PNone,
           ?w1\<lparr>trace := trace ?w1 @ [HttpPost (groq_request e prompt data), LogError msg]\<rparr>)"
      using h by auto
    have u: "upload_image e img w = upload_image_stored e ?p ?w1"
      using h by (simp add: upload_image_accepted)
    show ?thesis
      unfolding u using stored_analysis_absent [OF f _ a] h
      by (simp add: log_info_def file_events_def)
  qed
  show ?thesis using analyzer handler by blast
qed

text \<open>The upload \<open>photo.jpg\<close> against an endpoint that answers 503.\<close>

lemma demo_env_guess_photo: "guess_type demo_env ''./uploads/photo.jpg'' = Some ''image/jpeg''"
  by (simp add: demo_env_def mimetypes_guess_type_def splitext_def basename_def suffix_map_def
        encodings_map_def types_map_def lower_def ascii_lower_def)

lemma jpeg_allowed: "allowed_mime (Some ''image/jpeg'')"
  by (simp add: allowed_mime_def ALLOWED_MIME_TYPES_def)

theorem analysis_failure_is_absence_then_500_witness:
  "client_post overloaded_env (groq_request overloaded_env prompt (content photo_jpg))
     = Inr overloaded_response
   \<and> status_code overloaded_response = 503
   \<and> fst (analyze_image overloaded_env ''./uploads/photo.jpg'' prompt photo_stored) = Inr PNone
   \<and> fst (upload_image overloaded_env photo_jpg empty_world)
       = Inl (HTTPException 500 ''Failed to analyze the image'')
   \<and> files (snd (upload_image overloaded_env photo_jpg empty_world)) ''./uploads/photo.jpg'' = None"
proof -
  have c: "client_post overloaded_env (groq_request overloaded_env prompt (content photo_jpg))
             = Inr overloaded_response"
    by (simp add: overloaded_env_def)
  have s: "status_code overloaded_response \<noteq> 200" by (simp add: overloaded_response_def)
  have h: "client_post overloaded_env (groq_request overloaded_env prompt (content photo_jpg))
             = Inl IndexError
           \<or> (client_post overloaded_env (groq_request overloaded_env prompt (content photo_jpg))
                = Inr overloaded_response
              \<and> (status_code overloaded_response \<noteq> 200
                 \<or> resp_json overloaded_response = Inl IndexError
                 \<or> (resp_json overloaded_response = Inr PNone
                    \<and> first_choice_content PNone = Inl IndexError)))"
    using c s by simp
  have f: "files photo_stored ''./uploads/photo.jpg'' = Some (content photo_jpg)"
    by (simp add: photo_stored_def photo_jpg_def)
  have d: "content photo_jpg = content photo_jpg \<and> allowed_mime (content_type photo_jpg)
           \<and> open_wb_error overloaded_env (upload_path (filename photo_jpg)) = None
           \<and> allowed_mime (guess_type overloaded_env (upload_path (filename photo_jpg)))"
    using photo_jpg_declared demo_env_writes demo_env_guess_photo jpeg_allowed
    by (simp add: photo_jpg_path overloaded_env_def)
  from analysis_failure_is_absence_then_500
         [OF h, where w = photo_stored and image_path = "''./uploads/photo.jpg''"
            and img = photo_jpg] f
  obtain msg where "analyze_image overloaded_env ''./uploads/photo.jpg'' prompt photo_stored
      = (Inr PNone,
         photo_stored\<lparr>trace := trace photo_stored
            @ [HttpPost (groq_request overloaded_env prompt (content photo_jpg)),
               LogError msg]\<rparr>)"
    by blast
  then have a: "fst (analyze_image overloaded_env ''./uploads/photo.jpg'' prompt photo_stored)
                  = Inr PNone"
    by simp
  from analysis_failure_is_absence_then_500
         [OF h, where w = empty_world and image_path = "[]" and img = photo_jpg] d
  have b: "fst (upload_image overloaded_env photo_jpg empty_world)
             = Inl (HTTPException 500 ''Failed to analyze the image'')
           \<and> files (snd (upload_image overloaded_env photo_jpg empty_world))
               (upload_path (filename photo_jpg)) = None"
    by blast
  show ?thesis using a b c by (simp add: photo_jpg_path overloaded_response_def)
qed

section \<open>Delivery failures\<close>

lemma notifier_file_events:
  "file_events (trace (snd (send_image_and_analysis_to_telegram e p a w)))
     = file_events (trace w)"
  by (auto simp: send_image_and_analysis_to_telegram_def
        send_image_and_analysis_to_telegram_try_def log_info_def log_error_def Let_def
        file_events_def split: option.splits)

lemma notifier_raises:
  assumes "files w p = Some data"
    and "send_photo e (TELEGRAM_CHAT_ID e) data (strftime (now e)) = Some err
         \<or> (send_photo e (TELEGRAM_CHAT_ID e) data (strftime (now e)) = None
            \<and> send_message e (TELEGRAM_CHAT_ID e) a = Some err)"
  shows "fst (send_image_and_analysis_to_telegram e p a w) = Inl err"
  using assms
  by (auto simp: send_image_and_analysis_to_telegram_def
        send_image_and_analysis_to_telegram_try_def Let_def)

lemma stored_delivery_failed:
  assumes "files w p = Some data"
    and "allowed_mime (guess_type e p)"
    and "analyze_image e p prompt w = (Inr v, w1)"
    and "py_truthy v"
    and "send_image_and_analysis_to_telegram e p v w1 = (Inl err, w2)"
  shows "upload_image_stored e p w
           = (Inl (HTTPException 500 ''Failed to send image to Telegram''),
              w2\<lparr>files := (files w)(p := None),
                 trace := trace w2
                   @ [LogError [Lit ''Failed to send image to Telegram: '', StrOfExn err],
                      FileRemove p]\<rparr>)"
proof -
  from analyze_image_files [of e p prompt w] assms(3) have "files w1 = files w" by simp
  moreover from notifier_files [of e p v w1] assms(5) have "files w2 = files w1" by simp
  ultimately show ?thesis using assms
    by (simp add: upload_image_stored_def handler_defs)
qed

text \<open>
  Claim C6. When either send raises, whatever the exception, the Notifier raises that same
  exception to its caller. In \<open>upload_image\<close>, after an analysis that gave a truthy
  answer, the handler then removes the file it wrote and raises the 500 for a failed
  delivery.
\<close>

theorem delivery_failure_propagates_then_500:
  assumes "send_photo e (TELEGRAM_CHAT_ID e) data (strftime (now e)) = Some err
           \<or> (send_photo e (TELEGRAM_CHAT_ID e) data (strftime (now e)) = None
              \<and> send_message e (TELEGRAM_CHAT_ID e) answer = Some err)"
  shows "(files w image_path = Some data \<longrightarrow>
            fst (send_image_and_analysis_to_telegram e image_path answer w) = Inl err)
         \<and> (content img = data \<and> allowed_mime (content_type img)
             \<and> open_wb_error e (upload_path (filename img)) = None
             \<and> allowed_mime (guess_type e (upload_path (filename img)))
             \<and> client_post e (groq_request e prompt data) = Inr response
             \<and> status_code response = 200 \<and> resp_json response = Inr result
             \<and> first_choice_content result = Inr answer \<and> py_truthy answer \<longrightarrow>
               fst (upload_image e img w)
                 = Inl (HTTPException 500 ''Failed to send image to Telegram'')
               \<and> http_status (fst (upload_image e img w)) = 500
               \<and> files (snd (upload_image e img w)) (upload_path (filename img)) = None
               \<and> file_events (trace (snd (upload_image e img w)))
                   = file_events (trace w)
                     @ [FileWrite (upload_path (filename img)) (content img),
                        FileRemove (upload_path (filename img))])"
proof -
  let ?p = "upload_path (filename img)"
  let ?w1 = "log_info [Lit (''Image saved at '' @ ?p)]
               (w\<lparr>files := (files w)(?p \<mapsto> content img),
                  trace := trace w @ [FileWrite ?p (content img)]\<rparr>)"
  let ?w2 = "?w1\<lparr>trace := trace ?w1
               @ [HttpPost (groq_request e prompt data), LogInfo [Lit ''Analysis result:''],
                  LogInfo [StrOf answer]]\<rparr>"
  have notifier: "files w image_path = Some data \<longrightarrow>
            fst (send_image_and_analysis_to_telegram e image_path answer w) = Inl err"
    using assms notifier_raises [of w image_path data e err answer] by blast
  have handler: "fst (upload_image e img w)
                 = Inl (HTTPException 500 ''Failed to send image to Telegram'')
               \<and> http_status (fst (upload_image e img w)) = 500
               \<and> files (snd (upload_image e img w)) ?p = None
               \<and> file_events (trace (snd (upload_image e img w)))
                   = file_events (trace w) @ [FileWrite ?p (content img), FileRemove ?p]"
    if h: "content img = data \<and> allowed_mime (content_type img)
             \<and> open_wb_error e ?p = None \<and> allowed_mime (guess_type e ?p)
             \<and> client_post e (groq_request e prompt data) = Inr response
             \<and> status_code response = 200 \<and> resp_json response = Inr result
             \<and> first_choice_content result = Inr answer \<and> py_truthy answer"
  proof -
    have f: "files ?w1 ?p = Some data" using h by (simp add: log_info_def)
    from h have c: "client_post e (groq_request e prompt data) = Inr response"
      and c200: "status_code response = 200"
      and cj: "resp_json response = Inr result"
      and ca: "first_choice_content result = Inr answer"
      and g: "allowed_mime (guess_type e ?p)"
      and tr: "py_truthy answer"
      by simp_all
    have a: "analyze_image e ?p prompt ?w1 = (Inr answer, ?w2)"
      by (rule analyze_image_answers [OF f c c200 cj ca])
    have f2: "files ?w2 ?p = Some data" using h by (simp add: log_info_def)
    obtain r w3 where s: "send_image_and_analysis_to_telegram e ?p answer ?w2 = (r, w3)"
      by (cases "send_image_and_analysis_to_telegram e ?p answer ?w2")
    from notifier_raises [OF f2 assms] s have r: "r = Inl err" by simp
    from notifier_file_events [of e ?p answer ?w2] s
    have t3: "file_events (trace w3) = file_events (trace ?w2)" by simp
    have u: "upload_image e img w = upload_image_stored e ?p ?w1"
      using h by (simp add: upload_image_accepted)
    have st: "upload_image_stored e ?p ?w1
           = (Inl (HTTPException 500 ''Failed to send image to Telegram''),
              w3\<lparr>files := (files ?w1)(?p := None),
                 trace := trace w3
                   @ [LogError [Lit ''Failed to send image to Telegram: '', StrOfExn err],
                      FileRemove ?p]\<rparr>)"
      using stored_delivery_failed [OF f g a tr] s r by simp
    show ?thesis
      unfolding u st using t3 by (simp add: log_info_def file_events_def)
  qed
  show ?thesis using notifier handler by blast
qed

text \<open>The upload \<open>photo.jpg\<close> when the text message times out.\<close>

lemma demo_response_content: "first_choice_content
    (PDict [(''choices'', PList [PDict [(''message'', PDict [(''content'', v)])]])]) = Inr v"
  by (simp add: first_choice_content_def)

lemma demo_answer_truthy: "py_truthy demo_answer"
  by (simp add: demo_answer_def)

theorem delivery_failure_propagates_then_500_witness:
  "send_photo offline_env (TELEGRAM_CHAT_ID offline_env) (content photo_jpg)
       (strftime (now offline_env)) = None
   \<and> send_message offline_env (TELEGRAM_CHAT_ID offline_env) demo_answer
       = Some (NetworkError ''Timed out'')
   \<and> fst (send_image_and_analysis_to_telegram offline_env ''./uploads/photo.jpg'' demo_answer
            photo_stored) = Inl (NetworkError ''Timed out'')
   \<and> fst (upload_image offline_env photo_jpg empty_world)
       = Inl (HTTPException 500 ''Failed to send image to Telegram'')
   \<and> files (snd (upload_image offline_env photo_jpg empty_world)) ''./uploads/photo.jpg'' = None"
proof -
  have p: "send_photo offline_env (TELEGRAM_CHAT_ID offline_env) (content photo_jpg)
             (strftime (now offline_env)) = None"
    by (simp add: offline_env_def demo_env_def)
  have m: "send_message offline_env (TELEGRAM_CHAT_ID offline_env) demo_answer
             = Some (NetworkError ''Timed out'')"
    by (simp add: offline_env_def)
  have h: "send_photo offline_env (TELEGRAM_CHAT_ID offline_env) (content photo_jpg)
             (strftime (now offline_env)) = Some (NetworkError ''Timed out'')
           \<or> (send_photo offline_env (TELEGRAM_CHAT_ID offline_env) (content photo_jpg)
                 (strftime (now offline_env)) = None
              \<and> send_message offline_env (TELEGRAM_CHAT_ID offline_env) demo_answer
                  = Some (NetworkError ''Timed out''))"
    using p m by simp
  have f: "files photo_stored ''./uploads/photo.jpg'' = Some (content photo_jpg)"
    by (simp add: photo_stored_def photo_jpg_def)
  have d2: "open_wb_error offline_env (upload_path (filename photo_jpg)) = None"
    using demo_env_writes by (simp add: photo_jpg_path offline_env_def)
  have d3: "allowed_mime (guess_type offline_env (upload_path (filename photo_jpg)))"
    using demo_env_guess_photo jpeg_allowed by (simp add: photo_jpg_path offline_env_def)
  have d4: "client_post offline_env (groq_request offline_env prompt (content photo_jpg))
              = Inr demo_response"
    by (simp add: offline_env_def demo_env_def)
  have d5: "status_code demo_response = 200" by (simp add: demo_response_def)
  have d6: "resp_json demo_response
              = Inr (PDict [(''choices'',
                      PList [PDict [(''message'', PDict [(''content'', demo_answer)])]])])"
    by (simp add: demo_response_def)
  have d1: "content photo_jpg = content photo_jpg" by simp
  note d = conjI [OF d1 conjI [OF photo_jpg_declared conjI [OF d2 conjI [OF d3 conjI [OF d4
             conjI [OF d5 conjI [OF d6 conjI [OF demo_response_content demo_answer_truthy]]]]]]]]
  from delivery_failure_propagates_then_500
         [OF h, where w = photo_stored and image_path = "''./uploads/photo.jpg''"
            and img = photo_jpg] f
  have a: "fst (send_image_and_analysis_to_telegram offline_env ''./uploads/photo.jpg''
                  demo_answer photo_stored) = Inl (NetworkError ''Timed out'')"
    by blast
  from delivery_failure_propagates_then_500
         [OF h, where w = empty_world and image_path = "[]" and img = photo_jpg
            and response = demo_response] d
  have b: "fst (upload_image offline_env photo_jpg empty_world)
             = Inl (HTTPException 500 ''Failed to send image to Telegram'')
           \<and> files (snd (upload_image offline_env photo_jpg empty_world))
               (upload_path (filename photo_jpg)) = None"
    by blast
  show ?thesis using a b p m by (simp add: photo_jpg_path)
qed

section \<open>An empty answer\<close>



text \<open>
  Claim C10. When the inference call answers 200 and the first choice's message content
  is the empty string, \<open>upload_image\<close> raises the 500 for a failed analysis and removes
  the file. The whole trace of the run is given: it holds no send, so nothing reaches the
  Notifier.
\<close>

theorem empty_analysis_is_failure:
  assumes "allowed_mime (content_type img)"
    and "open_wb_error e (upload_path (filename img)) = None"
    and "allowed_mime (guess_type e (upload_path (filename img)))"
    and "client_post e (groq_request e prompt (content img)) = Inr response"
    and "status_code response = 200"
    and "resp_json response = Inr result"
    and "first_choice_content result = Inr (PStr [])"
  shows "fst (upload_image e img w) = Inl (HTTPException 500 ''Failed to analyze the image'')
         \<and> http_status (fst (upload_image e img w)) = 500
         \<and> files (snd (upload_image e img w)) (upload_path (filename img)) = None
         \<and> trace (snd (upload_image e img w))
             = trace w
               @ [FileWrite (upload_path (filename img)) (content img),
                  LogInfo [Lit (''Image saved at '' @ upload_path (filename img))],
                  HttpPost (groq_request e prompt (content img)),
                  LogInfo [Lit ''Analysis result:''],
                  LogInfo [StrOf (PStr [])],
                  FileRemove (upload_path (filename img)),
                  LogError [Lit ''Failed to analyze the image.'']]"
proof -
  let ?p = "upload_path (filename img)"
  let ?w1 = "log_info [Lit (''Image saved at '' @ ?p)]
               (w\<lparr>files := (files w)(?p \<mapsto> content img),
                  trace := trace w @ [FileWrite ?p (content img)]\<rparr>)"
  have f: "files ?w1 ?p = Some (content img)" by (simp add: log_info_def)
  note a = analyze_image_answers [OF f assms(4-7)]
  have n: "\<not> py_truthy (PStr [])" by simp
  show ?thesis
    unfolding upload_image_accepted [OF assms(1,2)]
    using stored_analysis_absent [OF f assms(3) a n]
    by (simp add: log_info_def)
qed

theorem empty_analysis_is_failure_witness:
  "fst (upload_image silent_env photo_jpg empty_world)
     = Inl (HTTPException 500 ''Failed to analyze the image'')
   \<and> files (snd (upload_image silent_env photo_jpg empty_world)) ''./uploads/photo.jpg'' = None
   \<and> trace (snd (upload_image silent_env photo_jpg empty_world))
       = [FileWrite ''./uploads/photo.jpg'' (content photo_jpg),
          LogInfo [Lit ''Image saved at ./uploads/photo.jpg''],
          HttpPost (groq_request silent_env prompt (content photo_jpg)),
          LogInfo [Lit ''Analysis result:''],
          LogInfo [StrOf (PStr [])],
          FileRemove ''./uploads/photo.jpg'',
          LogError [Lit ''Failed to analyze the image.'']]"
proof -
  have h1: "allowed_mime (content_type photo_jpg)" by (rule photo_jpg_declared)
  have h2: "open_wb_error silent_env (upload_path (filename photo_jpg)) = None"
    using demo_env_writes by (simp add: photo_jpg_path silent_env_def)
  have h3: "allowed_mime (guess_type silent_env (upload_path (filename photo_jpg)))"
    using demo_env_guess_photo jpeg_allowed by (simp add: photo_jpg_path silent_env_def)
  have h4: "client_post silent_env (groq_request silent_env prompt (content photo_jpg))
              = Inr silent_response"
    by (simp add: silent_env_def)
  have h5: "status_code silent_response = 200" by (simp add: silent_response_def)
  have h6: "resp_json silent_response
              = Inr (PDict [(''choices'',
                      PList [PDict [(''message'', PDict [(''content'', PStr [])])]])])"
    by (simp add: silent_response_def)
  show ?thesis
    using empty_analysis_is_failure [OF h1 h2 h3 h4 h5 h6 demo_response_content, of empty_world]
    by (simp add: photo_jpg_path empty_world_def)
qed

section \<open>The inference request\<close>

lemma analyze_image_posts_once:
  assumes "files w p = Some data"
  shows "http_posts (trace (snd (analyze_image e p t w)))
           = http_posts (trace w) @ [groq_request e t data]"
  using assms
  by (auto simp: analyze_image_def analyze_image_try_def log_info_def log_error_def Let_def
        http_posts_append split: sum.splits)

text \<open>
  Claim C7. For a file it can read, \<open>analyze_image\<close> sends exactly one request. The
  request goes to the configured URL with the header \<open>Authorization: Bearer <key>\<close> and a
  timeout of 30 seconds; its JSON body has temperature 0.1, \<open>max_tokens\<close> 1000 and one
  user message made of the prompt text and the image as the data URI
  \<open>data:image/jpeg;base64,<...>\<close>. When the answer has status 200 and its JSON holds
  \<open>choices[0].message.content\<close>, that content is what \<open>analyze_image\<close> returns.
\<close>

theorem analyzer_request_and_answer:
  assumes "files w image_path = Some image_content"
  shows "http_posts (trace (snd (analyze_image e image_path prompt_text w)))
           = http_posts (trace w) @ [groq_request e prompt_text image_content]
         \<and> url (groq_request e prompt_text image_content) = GROQ_API_URL e
         \<and> map_of (headers (groq_request e prompt_text image_content)) ''Authorization''
             = Some (''Bearer '' @ GROQ_API_KEY e)
         \<and> timeout (groq_request e prompt_text image_content) = 30
         \<and> getitem_str (json_body (groq_request e prompt_text image_content)) ''temperature''
             = Inr (PFloat 1 (- 1))
         \<and> getitem_str (json_body (groq_request e prompt_text image_content)) ''max_tokens''
             = Inr (PInt 1000)
         \<and> getitem_str (json_body (groq_request e prompt_text image_content)) ''messages''
             = Inr (PList
                     [PDict
                       [(''role'', PStr ''user''),
                        (''content'',
                         PList
                          [PDict [(''type'', PStr ''text''), (''text'', PStr prompt_text)],
                           PDict
                            [(''type'', PStr ''image_url''),
                             (''image_url'',
                              PDict
                               [(''url'',
                                 PStr (''data:image/jpeg;base64,''
                                       @ b64encode image_content))])]])]])
         \<and> (client_post e (groq_request e prompt_text image_content) = Inr response
             \<and> status_code response = 200 \<and> resp_json response = Inr result
             \<and> getitem_str result ''choices'' = Inr choices
             \<and> getitem_0 choices = Inr choice
             \<and> getitem_str choice ''message'' = Inr message
             \<and> getitem_str message ''content'' = Inr answer \<longrightarrow>
               fst (analyze_image e image_path prompt_text w) = Inr answer)"
proof -
  have posts: "http_posts (trace (snd (analyze_image e image_path prompt_text w)))
           = http_posts (trace w) @ [groq_request e prompt_text image_content]"
    using assms by (rule analyze_image_posts_once)
  have fields: "url (groq_request e prompt_text image_content) = GROQ_API_URL e
         \<and> map_of (headers (groq_request e prompt_text image_content)) ''Authorization''
             = Some (''Bearer '' @ GROQ_API_KEY e)
         \<and> timeout (groq_request e prompt_text image_content) = 30
         \<and> getitem_str (json_body (groq_request e prompt_text image_content)) ''temperature''
             = Inr (PFloat 1 (- 1))
         \<and> getitem_str (json_body (groq_request e prompt_text image_content)) ''max_tokens''
             = Inr (PInt 1000)"
    by (simp add: groq_request_def)
  have messages: "getitem_str (json_body (groq_request e prompt_text image_content)) ''messages''
             = Inr (PList
                     [PDict
                       [(''role'', PStr ''user''),
                        (''content'',
                         PList
                          [PDict [(''type'', PStr ''text''), (''text'', PStr prompt_text)],
                           PDict
                            [(''type'', PStr ''image_url''),
                             (''image_url'',
                              PDict
                               [(''url'',
                                 PStr (''data:image/jpeg;base64,''
                                       @ b64encode image_content))])]])]])"
    by (simp add: groq_request_def groq_messages_def)
  have answer: "fst (analyze_image e image_path prompt_text w) = Inr answer"
    if h: "client_post e (groq_request e prompt_text image_content) = Inr response
             \<and> status_code response = 200 \<and> resp_json response = Inr result
             \<and> getitem_str result ''choices'' = Inr choices
             \<and> getitem_0 choices = Inr choice
             \<and> getitem_str choice ''message'' = Inr message
             \<and> getitem_str message ''content'' = Inr answer"
  proof -
    from h have c: "first_choice_content result = Inr answer"
      by (simp add: first_choice_content_def)
    from h have "client_post e (groq_request e prompt_text image_content) = Inr response"
      and "status_code response = 200" and "resp_json response = Inr result"
      by simp_all
    from analyze_image_answers [OF assms this c] show ?thesis by simp
  qed
  show ?thesis using posts fields messages answer by blast
qed

text \<open>The stored \<open>photo.jpg\<close>: the four bytes \<open>FF D8 FF E0\<close> encode as \<open>/9j/4A==\<close>.\<close>

lemma photo_b64: "b64encode [0xFF, 0xD8, 0xFF, 0xE0] = ''/9j/4A==''"
  by (simp add: b64_char_def b64_alphabet_def)

theorem analyzer_request_and_answer_witness:
  "files photo_stored ''./uploads/photo.jpg'' = Some [0xFF, 0xD8, 0xFF, 0xE0]
   \<and> http_posts (trace (snd (analyze_image demo_env ''./uploads/photo.jpg'' prompt photo_stored)))
       = [groq_request demo_env prompt [0xFF, 0xD8, 0xFF, 0xE0]]
   \<and> getitem_str (json_body (groq_request demo_env prompt [0xFF, 0xD8, 0xFF, 0xE0])) ''messages''
       = Inr (PList
               [PDict
                 [(''role'', PStr ''user''),
                  (''content'',
                   PList
                    [PDict [(''type'', PStr ''text''), (''text'', PStr prompt)],
                     PDict
                      [(''type'', PStr ''image_url''),
                       (''image_url'',
                        PDict [(''url'', PStr ''data:image/jpeg;base64,/9j/4A=='')])]])]])
   \<and> fst (analyze_image demo_env ''./uploads/photo.jpg'' prompt photo_stored) = Inr demo_answer"
proof -
  have f: "files photo_stored ''./uploads/photo.jpg'' = Some [0xFF, 0xD8, 0xFF, 0xE0]"
    by (simp add: photo_stored_def)
  have h: "client_post demo_env (groq_request demo_env prompt [0xFF, 0xD8, 0xFF, 0xE0])
             = Inr demo_response
           \<and> status_code demo_response = 200
           \<and> resp_json demo_response
               = Inr (PDict [(''choices'',
                       PList [PDict [(''message'', PDict [(''content'', demo_answer)])]])])
           \<and> getitem_str
                (PDict [(''choices'',
                   PList [PDict [(''message'', PDict [(''content'', demo_answer)])]])])
                ''choices''
               = Inr (PList [PDict [(''message'', PDict [(''content'', demo_answer)])]])
           \<and> getitem_0 (PList [PDict [(''message'', PDict [(''content'', demo_answer)])]])
               = Inr (PDict [(''message'', PDict [(''content'', demo_answer)])])
           \<and> getitem_str (PDict [(''message'', PDict [(''content'', demo_answer)])]) ''message''
               = Inr (PDict [(''content'', demo_answer)])
           \<and> getitem_str (PDict [(''content'', demo_answer)]) ''content'' = Inr demo_answer"
    by (simp add: demo_env_def demo_response_def)
  note t = analyzer_request_and_answer
             [OF f, where e = demo_env and prompt_text = prompt and response = demo_response
                and answer = demo_answer]
  from t h have a: "fst (analyze_image demo_env ''./uploads/photo.jpg'' prompt photo_stored)
                      = Inr demo_answer"
    by blast
  from t have p: "http_posts (trace (snd (analyze_image demo_env ''./uploads/photo.jpg'' prompt
                      photo_stored)))
       = http_posts (trace photo_stored) @ [groq_request demo_env prompt [0xFF, 0xD8, 0xFF, 0xE0]]"
    by blast
  from t have m: "getitem_str (json_body (groq_request demo_env prompt [0xFF, 0xD8, 0xFF, 0xE0]))
        ''messages''
       = Inr (PList
               [PDict
                 [(''role'', PStr ''user''),
                  (''content'',
                   PList
                    [PDict [(''type'', PStr ''text''), (''text'', PStr prompt)],
                     PDict
                      [(''type'', PStr ''image_url''),
                       (''image_url'',
                        PDict [(''url'', PStr (''data:image/jpeg;base64,''
                                       @ b64encode [0xFF, 0xD8, 0xFF, 0xE0]))])]])]])"
    by blast
  have tr: "trace photo_stored = []" by (simp add: photo_stored_def)
  show ?thesis using f a p m [unfolded photo_b64] tr by simp
qed

section \<open>The two messages\<close>

lemma notifier_completes:
  assumes "fst (send_image_and_analysis_to_telegram e p a w) = Inr ()"
  shows "\<exists>image_file. files w p = Some image_file
           \<and> send_photo e (TELEGRAM_CHAT_ID e) image_file (strftime (now e)) = None
           \<and> send_message e (TELEGRAM_CHAT_ID e) a = None
           \<and> trace (snd (send_image_and_analysis_to_telegram e p a w))
               = trace w
                 @ [SendPhoto (TELEGRAM_CHAT_ID e) image_file (strftime (now e)),
                    LogInfo [Lit (''Image sent to Telegram chat '' @ TELEGRAM_CHAT_ID e
                                  @ '' with timestamp '' @ strftime (now e))],
                    SendMessage (TELEGRAM_CHAT_ID e) a,
                    LogInfo [Lit (''Analysis result sent to Telegram chat ''
                                  @ TELEGRAM_CHAT_ID e)]]"
  using assms
  by (auto simp: send_image_and_analysis_to_telegram_def
        send_image_and_analysis_to_telegram_try_def log_info_def Let_def
        split: option.splits if_splits)

lemma notifier_photo_fails:
  assumes "files w p = Some image_file"
    and "send_photo e (TELEGRAM_CHAT_ID e) image_file (strftime (now e)) = Some err"
  shows "trace (snd (send_image_and_analysis_to_telegram e p a w))
           = trace w
             @ SendPhoto (TELEGRAM_CHAT_ID e) image_file (strftime (now e))
               # (if is_telegram_error err
                  then [LogError [Lit ''Error sending to Telegram: '', StrOfExn err]]
                  else [])"
  using assms
  by (simp add: send_image_and_analysis_to_telegram_def
        send_image_and_analysis_to_telegram_try_def log_error_def Let_def)

text \<open>
  Claim C8. When the Notifier completes, it has made exactly two calls, in this order: the
  photo (the stored file's bytes) with the caption \<open>strftime (now e)\<close>, then the analysis
  text, both to the configured chat; each completed. When the photo send raises, the text
  message is never sent. The caption is read from the clock inside the call and has the
  form \<open>%Y-%m-%d %H:%M:%S\<close>: the microsecond does not appear in it.
\<close>

theorem notifier_sends_photo_then_text:
  "(fst (send_image_and_analysis_to_telegram e image_path analysis_result w) = Inr () \<longrightarrow>
      (\<exists>image_file. files w image_path = Some image_file
         \<and> send_photo e (TELEGRAM_CHAT_ID e) image_file (strftime (now e)) = None
         \<and> send_message e (TELEGRAM_CHAT_ID e) analysis_result = None
         \<and> trace (snd (send_image_and_analysis_to_telegram e image_path analysis_result w))
             = trace w
               @ [SendPhoto (TELEGRAM_CHAT_ID e) image_file (strftime (now e)),
                  LogInfo [Lit (''Image sent to Telegram chat '' @ TELEGRAM_CHAT_ID e
                                @ '' with timestamp '' @ strftime (now e))],
                  SendMessage (TELEGRAM_CHAT_ID e) analysis_result,
                  LogInfo [Lit (''Analysis result sent to Telegram chat ''
                                @ TELEGRAM_CHAT_ID e)]]))
   \<and> (files w image_path = Some photo
       \<and> send_photo e (TELEGRAM_CHAT_ID e) photo (strftime (now e)) = Some err \<longrightarrow>
         trace (snd (send_image_and_analysis_to_telegram e image_path analysis_result w))
           = trace w
             @ SendPhoto (TELEGRAM_CHAT_ID e) photo (strftime (now e))
               # (if is_telegram_error err
                  then [LogError [Lit ''Error sending to Telegram: '', StrOfExn err]]
                  else []))
   \<and> strftime ((now e)\<lparr>microsecond := us\<rparr>) = strftime (now e)"
proof -
  have t: "strftime ((now e)\<lparr>microsecond := us\<rparr>) = strftime (now e)"
    by (simp add: strftime_def)
  show ?thesis
    using notifier_completes [of e image_path analysis_result w]
          notifier_photo_fails [of w image_path photo e err analysis_result] t
    by blast
qed

text \<open>The stored \<open>photo.jpg\<close>, delivered on 17 May 2024 at 08:03:09 (and 123456 microseconds).\<close>

lemma demo_timestamp: "strftime (now demo_env) = ''2024-05-17 08:03:09''"
  by (simp add: strftime_def demo_env_def zfill_def show_nat.simps digit_char_def)

theorem notifier_sends_photo_then_text_witness:
  "fst (send_image_and_analysis_to_telegram demo_env ''./uploads/photo.jpg'' demo_answer
          photo_stored) = Inr ()
   \<and> trace (snd (send_image_and_analysis_to_telegram demo_env ''./uploads/photo.jpg''
                   demo_answer photo_stored))
       = [SendPhoto ''-1001'' [0xFF, 0xD8, 0xFF, 0xE0] ''2024-05-17 08:03:09'',
          LogInfo [Lit ''Image sent to Telegram chat -1001 with timestamp 2024-05-17 08:03:09''],
          SendMessage ''-1001'' demo_answer,
          LogInfo [Lit ''Analysis result sent to Telegram chat -1001'']]"
proof -
  have chat: "TELEGRAM_CHAT_ID demo_env = ''-1001''" by (simp add: demo_env_def)
  have f: "files photo_stored ''./uploads/photo.jpg'' = Some [0xFF, 0xD8, 0xFF, 0xE0]"
    by (simp add: photo_stored_def)
  have tr: "trace photo_stored = []" by (simp add: photo_stored_def)
  have sp: "send_photo demo_env c b t = None" for c b t by (simp add: demo_env_def)
  have sm: "send_message demo_env c v = None" for c v by (simp add: demo_env_def)
  have ok: "fst (send_image_and_analysis_to_telegram demo_env ''./uploads/photo.jpg''
                   demo_answer photo_stored) = Inr ()"
    using f sp sm
    by (simp add: send_image_and_analysis_to_telegram_def
          send_image_and_analysis_to_telegram_try_def Let_def)
  from notifier_sends_photo_then_text
         [where e = demo_env and image_path = "''./uploads/photo.jpg''"
            and analysis_result = demo_answer and w = photo_stored and photo = "[]"
            and us = 0] ok
  obtain image_file where
    "files photo_stored ''./uploads/photo.jpg'' = Some image_file"
    "trace (snd (send_image_and_analysis_to_telegram demo_env ''./uploads/photo.jpg''
                   demo_answer photo_stored))
       = trace photo_stored
         @ [SendPhoto (TELEGRAM_CHAT_ID demo_env) image_file (strftime (now demo_env)),
            LogInfo [Lit (''Image sent to Telegram chat '' @ TELEGRAM_CHAT_ID demo_env
                          @ '' with timestamp '' @ strftime (now demo_env))],
            SendMessage (TELEGRAM_CHAT_ID demo_env) demo_answer,
            LogInfo [Lit (''Analysis result sent to Telegram chat ''
                          @ TELEGRAM_CHAT_ID demo_env)]]"
    by blast
  then show ?thesis using ok f tr by (simp add: chat demo_timestamp)
qed

section \<open>The storage path\<close>

lemma basename_no_slash: "CHR ''/'' \<notin> set (basename name)"
  by (auto simp: basename_def dest: set_takeWhileD)

lemma basename_is_last_component:
  "\<exists>dir. name = dir @ basename name \<and> (dir = [] \<or> last dir = CHR ''/'')"
proof -
  let ?P = "\<lambda>c. c \<noteq> CHR ''/''"
  let ?dir = "rev (dropWhile ?P (rev name))"
  have split: "name = ?dir @ basename name"
    unfolding basename_def by (metis rev_append rev_rev_ident takeWhile_dropWhile_id)
  have "last ?dir = CHR ''/''" if "?dir \<noteq> []"
  proof -
    from that have ne: "dropWhile ?P (rev name) \<noteq> []" by simp
    then have "last ?dir = hd (dropWhile ?P (rev name))" by (simp add: last_rev)
    moreover from ne have "\<not> ?P (hd (dropWhile ?P (rev name)))" by (rule hd_dropWhile)
    ultimately show ?thesis by simp
  qed
  then show ?thesis using split by blast
qed

lemma upload_path_basename: "upload_path name = ''./uploads/'' @ basename name"
proof (cases "basename name")
  case Nil
  then show ?thesis by (simp add: upload_path_def path_join_def UPLOAD_FOLDER_def)
next
  case (Cons c cs)
  with basename_no_slash [of name] have "c \<noteq> CHR ''/''" by auto
  with Cons show ?thesis by (simp add: upload_path_def path_join_def UPLOAD_FOLDER_def)
qed

text \<open>The file effects of the stored part of the handler.\<close>

lemma analyze_image_file_events:
  "file_events (trace (snd (analyze_image e p t w))) = file_events (trace w)"
  by (auto simp: analyze_image_def analyze_image_try_def log_info_def log_error_def Let_def
        file_events_def split: option.splits sum.splits)

lemma stored_file_events:
  assumes "files w p = Some data"
  shows "file_events (trace (snd (upload_image_stored e p w)))
           = file_events (trace w) @ [FileRemove p]"
proof (cases "allowed_mime (guess_type e p)")
  case False
  then show ?thesis using assms
    by (simp add: upload_image_stored_def handler_defs file_events_def)
next
  case True
  obtain r w1 where a: "analyze_image e p prompt w = (r, w1)" by (cases "analyze_image e p prompt w")
  from analyze_image_returns [of e p prompt w] a obtain v where r: "r = Inr v" by auto
  from analyze_image_files [of e p prompt w] a have f1: "files w1 = files w" by simp
  from analyze_image_file_events [of e p prompt w] a
  have c1: "file_events (trace w1) = file_events (trace w)" by simp
  show ?thesis
  proof (cases "py_truthy v")
    case False
    then show ?thesis using True a r f1 c1 assms
      by (simp add: upload_image_stored_def handler_defs file_events_def)
  next
    case tr: True
    obtain r2 w2 where s: "send_image_and_analysis_to_telegram e p v w1 = (r2, w2)"
      by (cases "send_image_and_analysis_to_telegram e p v w1")
    from notifier_files [of e p v w1] s have f2: "files w2 = files w1" by simp
    from notifier_file_events [of e p v w1] s
    have c2: "file_events (trace w2) = file_events (trace w1)" by simp
    show ?thesis using True a r f1 c1 tr s f2 c2 assms
      by (cases r2) (simp_all add: upload_image_stored_def handler_defs file_events_def)
  qed
qed

text \<open>
  Claim C9. The storage name is the final component of the supplied name: it holds no
  slash, and the supplied name is a directory prefix (empty or ending in a slash) followed
  by it. The file goes to \<open>./uploads/\<close> followed by that component. A write that does not
  raise leaves the new bytes at the path, whatever was there before, and touches no other
  path. In a run of \<open>upload_image\<close> whose write does not raise, the file effects are that
  one write and the later removal of the same path.
\<close>

theorem upload_stored_under_final_component:
  "CHR ''/'' \<notin> set (basename name)
   \<and> (\<exists>dir. name = dir @ basename name \<and> (dir = [] \<or> last dir = CHR ''/''))
   \<and> upload_path name = ''./uploads/'' @ basename name
   \<and> (open_wb_error e p = None \<longrightarrow>
         files (snd (aio_write e p data w)) p = Some data
         \<and> (\<forall>q. q \<noteq> p \<longrightarrow> files (snd (aio_write e p data w)) q = files w q))
   \<and> (allowed_mime (content_type img) \<and> open_wb_error e (upload_path (filename img)) = None
         \<longrightarrow> file_events (trace (snd (upload_image e img w)))
               = file_events (trace w)
                 @ [FileWrite (''./uploads/'' @ basename (filename img)) (content img),
                    FileRemove (''./uploads/'' @ basename (filename img))])"
proof -
  have w: "files (snd (aio_write e p data w)) p = Some data
           \<and> (\<forall>q. q \<noteq> p \<longrightarrow> files (snd (aio_write e p data w)) q = files w q)"
    if "open_wb_error e p = None"
    using that by (simp add: aio_write_def)
  have u: "file_events (trace (snd (upload_image e img w)))
               = file_events (trace w)
                 @ [FileWrite (''./uploads/'' @ basename (filename img)) (content img),
                    FileRemove (''./uploads/'' @ basename (filename img))]"
    if h: "allowed_mime (content_type img) \<and> open_wb_error e (upload_path (filename img)) = None"
  proof -
    let ?p = "upload_path (filename img)"
    let ?w1 = "log_info [Lit (''Image saved at '' @ ?p)]
                 (w\<lparr>files := (files w)(?p \<mapsto> content img),
                    trace := trace w @ [FileWrite ?p (content img)]\<rparr>)"
    from h have d: "allowed_mime (content_type img)" and o: "open_wb_error e ?p = None"
      by simp_all
    have f: "files ?w1 ?p = Some (content img)" by (simp add: log_info_def)
    have "file_events (trace (snd (upload_image e img w)))
            = file_events (trace w) @ [FileWrite ?p (content img), FileRemove ?p]"
      unfolding upload_image_accepted [OF d o] stored_file_events [OF f]
      by (simp add: log_info_def file_events_def)
    then show ?thesis by (simp add: upload_path_basename)
  qed
  show ?thesis
    using basename_no_slash [of name] basename_is_last_component [of name]
          upload_path_basename [of name] w u
    by blast
qed

text \<open>
  The name \<open>../../tmp/evil.jpg\<close> is stored as \<open>./uploads/evil.jpg\<close>; a write over the
  stored \<open>photo.jpg\<close> replaces its bytes.
\<close>

theorem upload_stored_under_final_component_witness:
  "basename ''../../tmp/evil.jpg'' = ''evil.jpg''
   \<and> upload_path (filename traversal_jpg) = ''./uploads/evil.jpg''
   \<and> files (snd (aio_write demo_env ''./uploads/photo.jpg'' [0x00] photo_stored))
         ''./uploads/photo.jpg'' = Some [0x00]
   \<and> file_events (trace (snd (upload_image demo_env traversal_jpg empty_world)))
       = [FileWrite ''./uploads/evil.jpg'' (content traversal_jpg),
          FileRemove ''./uploads/evil.jpg'']"
proof -
  have b: "basename ''../../tmp/evil.jpg'' = ''evil.jpg''" by (simp add: basename_def)
  have n: "filename traversal_jpg = ''../../tmp/evil.jpg''" by (simp add: traversal_jpg_def)
  have o1: "open_wb_error demo_env ''./uploads/photo.jpg'' = None" by (rule demo_env_writes)
  have o2: "open_wb_error demo_env ''./uploads/evil.jpg'' = None"
    by (simp add: demo_env_def basename_def)
  have d: "allowed_mime (content_type traversal_jpg)"
    by (simp add: traversal_jpg_def allowed_mime_def ALLOWED_MIME_TYPES_def)
  have tr: "trace empty_world = []" by (simp add: empty_world_def)
  note t1 = upload_stored_under_final_component
              [where name = "''../../tmp/evil.jpg''" and e = demo_env
                 and p = "''./uploads/photo.jpg''" and data = "[0x00]" and w = photo_stored
                 and img = traversal_jpg]
  note t2 = upload_stored_under_final_component
              [where name = "''../../tmp/evil.jpg''" and e = demo_env
                 and p = "''./uploads/photo.jpg''" and data = "[0x00]" and w = empty_world
                 and img = traversal_jpg]
  from t1 have p: "upload_path ''../../tmp/evil.jpg'' = ''./uploads/'' @ basename ''../../tmp/evil.jpg''"
    by blast
  from t1 o1 have c: "files (snd (aio_write demo_env ''./uploads/photo.jpg'' [0x00] photo_stored))
         ''./uploads/photo.jpg'' = Some [0x00]"
    by blast
  from p b have p': "upload_path (filename traversal_jpg) = ''./uploads/evil.jpg''"
    by (simp add: n)
  from o2 p' have o3: "open_wb_error demo_env (upload_path (filename traversal_jpg)) = None"
    by simp
  from t2 d o3 have "file_events (trace (snd (upload_image demo_env traversal_jpg empty_world)))
       = file_events (trace empty_world)
         @ [FileWrite (''./uploads/'' @ basename (filename traversal_jpg)) (content traversal_jpg),
            FileRemove (''./uploads/'' @ basename (filename traversal_jpg))]"
    by blast
  then have u: "file_events (trace (snd (upload_image demo_env traversal_jpg empty_world)))
       = [FileWrite ''./uploads/evil.jpg'' (content traversal_jpg),
          FileRemove ''./uploads/evil.jpg'']"
    by (simp add: n b tr file_events_def)
  show ?thesis using b p' c u by simp
qed

end
